theory Spec2Isabelle
  imports Main "HOL-Library.Word" "HOL-Library.Sublist"
begin

unbundle bit_operations_syntax

section \<open>Wire protocol constants (package wire)\<close>

type_synonym uint32 = "32 word"
type_synonym uint64 = "64 word"

text \<open>The protocol version constants, in the order the source declares them.\<close>

definition InitialProcotolVersion :: uint32 where
  "InitialProcotolVersion = 1"

definition ProtocolVersion :: uint32 where
  "ProtocolVersion = 6"

definition NodeBloomVersion :: uint32 where
  "NodeBloomVersion = 2"

definition SendHeadersVersion :: uint32 where
  "SendHeadersVersion = 3"

definition MaxBlockSizeVersion :: uint32 where
  "MaxBlockSizeVersion = 4"

definition FeeFilterVersion :: uint32 where
  "FeeFilterVersion = 5"

definition NodeCFVersion :: uint32 where
  "NodeCFVersion = 6"

section \<open>Helpers of the Go standard library used by the modelled code\<close>

text \<open>
  Digits as \<open>strconv\<close> and \<open>fmt\<close> print them: \<open>0\<close> to \<open>9\<close>, then lower-case
  letters. Only the values below 16 are ever asked for.
\<close>

definition digitChar :: "nat \<Rightarrow> char" where
  "digitChar d = ''0123456789abcdef'' ! (d mod 16)"

text \<open>\<open>strconv.FormatUint(n, 16)\<close>: lower-case hexadecimal, no leading zeros.\<close>

function formatHex :: "nat \<Rightarrow> string" where
  "formatHex n = (if n < 16 then [digitChar n] else formatHex (n div 16) @ [digitChar (n mod 16)])"
  by pat_completeness auto
termination
  by (relation "measure id") auto

text \<open>The verb \<open>%d\<close> of \<open>fmt.Sprintf\<close> on an unsigned integer: decimal, no leading zeros.\<close>

function formatDec :: "nat \<Rightarrow> string" where
  "formatDec n = (if n < 10 then [digitChar n] else formatDec (n div 10) @ [digitChar (n mod 10)])"
  by pat_completeness auto
termination
  by (relation "measure id") auto

declare formatHex.simps [simp del]
declare formatDec.simps [simp del]

text \<open>\<open>strings.TrimLeft(s, cutset)\<close> and \<open>strings.TrimRight(s, cutset)\<close>.\<close>

definition TrimLeft :: "string \<Rightarrow> string \<Rightarrow> string" where
  "TrimLeft s cutset = dropWhile (\<lambda>c. c \<in> set cutset) s"

definition TrimRight :: "string \<Rightarrow> string \<Rightarrow> string" where
  "TrimRight s cutset = rev (dropWhile (\<lambda>c. c \<in> set cutset) (rev s))"

text \<open>
  \<open>strings.IndexByte\<close> and \<open>strings.LastIndexByte\<close>: the position of the first and
  of the last occurrence of a byte; Go's \<open>-1\<close> is \<open>None\<close>.
\<close>

fun IndexByte :: "string \<Rightarrow> char \<Rightarrow> nat option" where
  "IndexByte [] c = None"
| "IndexByte (x # xs) c = (if x = c then Some 0 else map_option Suc (IndexByte xs c))"

definition LastIndexByte :: "string \<Rightarrow> char \<Rightarrow> nat option" where
  "LastIndexByte s c =
     (case IndexByte (rev s) c of None \<Rightarrow> None | Some k \<Rightarrow> Some (length s - 1 - k))"

text \<open>
  \<open>net.SplitHostPort\<close> and \<open>net.JoinHostPort\<close> of the Go standard library. The
  error carries the reason and the offending address, as \<open>net.AddrError\<close> does.
\<close>

datatype addrErrorReason =
  MissingPort | TooManyColons | MissingClosingBracket | UnexpectedOpenBracket
  | UnexpectedClosingBracket

datatype AddrError = AddrError addrErrorReason string

definition SplitHostPort :: "string \<Rightarrow> AddrError + (string \<times> string)" where
  "SplitHostPort hostport =
     (case LastIndexByte hostport CHR '':'' of
        None \<Rightarrow> Inl (AddrError MissingPort hostport)
      | Some i \<Rightarrow>
          let finish = (\<lambda>host j k.
                if IndexByte (drop j hostport) CHR ''['' \<noteq> None
                  then Inl (AddrError UnexpectedOpenBracket hostport)
                else if IndexByte (drop k hostport) CHR '']'' \<noteq> None
                  then Inl (AddrError UnexpectedClosingBracket hostport)
                else Inr (host, drop (i + 1) hostport))
          in
          if hostport ! 0 = CHR ''['' then
            (case IndexByte hostport CHR '']'' of
               None \<Rightarrow> Inl (AddrError MissingClosingBracket hostport)
             | Some e \<Rightarrow>
                 if e + 1 = length hostport then Inl (AddrError MissingPort hostport)
                 else if e + 1 = i then finish (take (e - 1) (drop 1 hostport)) 1 (e + 1)
                 else if hostport ! (e + 1) = CHR '':''
                   then Inl (AddrError TooManyColons hostport)
                 else Inl (AddrError MissingPort hostport))
          else
            (let host = take i hostport in
             if IndexByte host CHR '':'' \<noteq> None then Inl (AddrError TooManyColons hostport)
             else finish host 0 0))"

definition JoinHostPort :: "string \<Rightarrow> string \<Rightarrow> string" where
  "JoinHostPort host port =
     (if IndexByte host CHR '':'' \<noteq> None then ''['' @ host @ '']:'' @ port
      else host @ '':'' @ port)"

section \<open>Address list helpers of the configuration loader\<close>

text \<open>
  The loop of \<open>removeDuplicateAddresses\<close> over the remaining input, with the state it
  keeps: the result so far and the set of values seen (a map to the empty struct).
\<close>

fun removeDuplicateLoop ::
  "string list \<Rightarrow> string list \<times> (string \<rightharpoonup> unit) \<Rightarrow> string list \<times> (string \<rightharpoonup> unit)" where
  "removeDuplicateLoop [] st = st"
| "removeDuplicateLoop (val # rest) (result, seen) =
     (case seen val of
        None \<Rightarrow> removeDuplicateLoop rest (result @ [val], seen(val \<mapsto> ()))
      | Some _ \<Rightarrow> removeDuplicateLoop rest (result, seen))"

definition removeDuplicateAddresses :: "string list \<Rightarrow> string list" where
  "removeDuplicateAddresses addrs = fst (removeDuplicateLoop addrs ([], Map.empty))"

definition normalizeAddress :: "string \<Rightarrow> string \<Rightarrow> string" where
  "normalizeAddress addr defaultPort =
     (case SplitHostPort addr of
        Inl err \<Rightarrow> JoinHostPort addr defaultPort
      | Inr _ \<Rightarrow> addr)"

text \<open>
  \<open>normalizeAddresses\<close> overwrites each element of the slice it is given and then
  removes the duplicates; the value it returns is all the model needs.
\<close>

definition normalizeAddresses :: "string list \<Rightarrow> string \<Rightarrow> string list" where
  "normalizeAddresses addrs defaultPort =
     removeDuplicateAddresses (map (\<lambda>addr. normalizeAddress addr defaultPort) addrs)"

section \<open>The configuration helper minUint32\<close>

definition minUint32 :: "uint32 \<Rightarrow> uint32 \<Rightarrow> uint32" where
  "minUint32 a b = (if a < b then a else b)"

section \<open>CurrencyNet\<close>

type_synonym CurrencyNet = uint32

definition MainNet :: CurrencyNet where
  "MainNet = 0xd9b400f9"

definition bnStrings :: "CurrencyNet \<rightharpoonup> string" where
  "bnStrings = [MainNet \<mapsto> ''MainNet'']"

definition CurrencyNet_String :: "CurrencyNet \<Rightarrow> string" where
  "CurrencyNet_String n =
     (case bnStrings n of
        Some s \<Rightarrow> s
      | None \<Rightarrow> ''Unknown CurrencyNet ('' @ formatDec (unat n) @ '')'')"

section \<open>ServiceFlag\<close>

type_synonym ServiceFlag = uint64

text \<open>The three flags are \<open>1 << iota\<close> for \<open>iota\<close> = 0, 1, 2.\<close>

definition SFNodeNetwork :: ServiceFlag where
  "SFNodeNetwork = push_bit 0 1"

definition SFNodeBloom :: ServiceFlag where
  "SFNodeBloom = push_bit 1 1"

definition SFNodeCF :: ServiceFlag where
  "SFNodeCF = push_bit 2 1"

definition sfStrings :: "ServiceFlag \<rightharpoonup> string" where
  "sfStrings = [SFNodeNetwork \<mapsto> ''SFNodeNetwork'', SFNodeBloom \<mapsto> ''SFNodeBloom'',
                SFNodeCF \<mapsto> ''SFNodeCF'']"

definition orderedSFStrings :: "ServiceFlag list" where
  "orderedSFStrings = [SFNodeNetwork, SFNodeBloom, SFNodeCF]"

text \<open>Indexing a Go map of strings at a missing key gives the empty string.\<close>

definition sfStringsAt :: "ServiceFlag \<Rightarrow> string" where
  "sfStringsAt flag = (case sfStrings flag of Some name \<Rightarrow> name | None \<Rightarrow> [])"

text \<open>
  The loop of \<open>ServiceFlag.String\<close> over the ordered flags; its state is the string
  built so far and what is left of \<open>f\<close>.
\<close>

fun stringLoop :: "ServiceFlag list \<Rightarrow> string \<times> ServiceFlag \<Rightarrow> string \<times> ServiceFlag" where
  "stringLoop [] st = st"
| "stringLoop (flag # rest) (s, f) =
     (if f AND flag = flag then stringLoop rest (s @ sfStringsAt flag @ ''|'', f - flag)
      else stringLoop rest (s, f))"

definition ServiceFlag_String :: "ServiceFlag \<Rightarrow> string" where
  "ServiceFlag_String f =
     (if f = 0 then ''0x0''
      else
        (case stringLoop orderedSFStrings ([], f) of
           (s, f') \<Rightarrow>
             let s1 = TrimRight s ''|'';
                 s2 = (if f' \<noteq> 0 then s1 @ ''|0x'' @ formatHex (unat f') else s1)
             in TrimLeft s2 ''|''))"

text \<open>
  What the description of \<open>ServiceFlag.String\<close> says, written independently of the
  loop: \<open>strings.Join\<close> of the names of the recognised flags whose bit (0, 1 or 2) is
  set, in the fixed order, followed by \<open>0x\<close> and the hexadecimal value of \<open>f\<close> without
  its three lowest bits when a bit outside the three is set.
\<close>

fun Join :: "string list \<Rightarrow> string \<Rightarrow> string" where
  "Join [] sep = []"
| "Join [x] sep = x"
| "Join (x # y # ys) sep = x @ sep @ Join (y # ys) sep"

definition ServiceFlag_String_described :: "ServiceFlag \<Rightarrow> string" where
  "ServiceFlag_String_described f =
     (if f = 0 then ''0x0''
      else Join
        ((if bit f 0 then [''SFNodeNetwork''] else [])
         @ (if bit f 1 then [''SFNodeBloom''] else [])
         @ (if bit f 2 then [''SFNodeCF''] else [])
         @ (if f AND NOT 7 = 0 then [] else [''0x'' @ formatHex (unat (f AND NOT 7))]))
        ''|'')"

section \<open>Shutdown requests\<close>

text \<open>
  A \<open>context.Context\<close> as \<open>shutdownRequested\<close> sees it at the moment of the call:
  canceled or not. Its \<open>Done\<close> channel carries no values; it is closed when the
  context is canceled, and a receive from it is ready exactly then.
\<close>

record ctxState =
  canceled :: bool

datatype doneChannel = Open | Closed

definition Done :: "ctxState \<Rightarrow> doneChannel" where
  "Done ctx = (if canceled ctx then Closed else Open)"

text \<open>The \<open>select\<close> with a \<open>default\<close> branch: the receive is taken when it is ready.\<close>

definition shutdownRequested :: "ctxState \<Rightarrow> bool" where
  "shutdownRequested ctx = (case Done ctx of Closed \<Rightarrow> True | Open \<Rightarrow> False)"

section \<open>The configuration of the daemon\<close>

subsection \<open>Errors\<close>

text \<open>
  The error values the loader meets. The first three come from the libraries it calls
  (a \<open>*flags.Error\<close> with its type, an \<open>*os.PathError\<close> with its path and what
  \<open>os.IsExist\<close> and \<open>os.IsNotExist\<close> say of it, and any other error); the others
  are the errors \<open>loadConfig\<close> builds with \<open>fmt.Errorf\<close>, one constructor for each
  message, carrying the values the message prints.
\<close>

datatype flagsErrorType = ErrHelp | ErrOther

datatype pathErrorKind = KindExist | KindNotExist | KindOther

datatype error =
    FlagsError flagsErrorType string
  | PathError string pathErrorKind
  | LibraryError string
  | SplitError AddrError
  | SymlinkNotMounted string string
  | FailedToCreateHomeDir error
  | InvalidDbType string "string list"
  | BanDurationTooShort int
  | InvalidMinRelayTxFee error
  | BlockMaxSizeOutOfRange uint32 uint32 uint32
  | MaxOrphanTxNegative int
  | MiningAddrDecodeFailed string error
  | MiningAddrWrongNetwork string
  | GenerateWithoutMiningAddrs
  | InvalidRPCListenInterface string error
  | NoTLSOnNonLocalhost string

text \<open>A call of \<open>os.Exit\<close> ends the process; otherwise the function returns.\<close>

datatype 'a outcome = Exit int | Return 'a

subsection \<open>Constants\<close>

text \<open>\<open>time.Duration\<close> counts nanoseconds in a signed 64-bit integer.\<close>

definition time_Second :: int where
  "time_Second = 1000000000"

definition time_Hour :: int where
  "time_Hour = 60 * (60 * time_Second)"

definition defaultConfigFilename :: string where
  "defaultConfigFilename = ''dcrd.conf''"

definition defaultDataDirname :: string where
  "defaultDataDirname = ''data''"

definition defaultMaxSameIP :: int where
  "defaultMaxSameIP = 5"

definition defaultMaxPeers :: int where
  "defaultMaxPeers = 125"

definition defaultBanDuration :: int where
  "defaultBanDuration = time_Hour * 24"

definition defaultBanThreshold :: uint32 where
  "defaultBanThreshold = 100"

definition defaultDbType :: string where
  "defaultDbType = ''ffldb''"

definition defaultBlockMinSize :: uint32 where
  "defaultBlockMinSize = 0"

definition defaultBlockMaxSize :: uint32 where
  "defaultBlockMaxSize = 375000"

definition blockMaxSizeMin :: uint32 where
  "blockMaxSizeMin = 1000"

definition defaultGenerate :: bool where
  "defaultGenerate = False"

definition defaultMaxOrphanTransactions :: int where
  "defaultMaxOrphanTransactions = 1000"

subsection \<open>The configuration record\<close>

text \<open>
  \<open>dcrjson.NetworksResult\<close>, the state of one network interface family.
\<close>

record NetworksResult =
  Name :: string
  Limited :: bool
  Reachable :: bool
  Proxy :: string

type_synonym address = string
type_synonym amount = int

text \<open>
  The fields of \<open>config\<close> that \<open>loadConfig\<close> and \<open>dcrdMain\<close> read or write once
  the options are parsed. \<open>AddPeers\<close>, \<open>ConnectPeers\<close> and \<open>Proxy\<close> are used by
  \<open>loadConfig\<close> as fields of the configuration. The options that only other parts of
  the daemon read (certificates, logging level, relay policy, indexes that are not
  dropped, the dial and lookup functions) are left out.
\<close>

record config =
  HomeDir :: string
  ConfigFile :: string
  DataDir :: string
  NoFileLogging :: bool
  DisableListen :: bool
  Listeners :: "string list"
  MaxSameIP :: int
  MaxPeers :: int
  BanDuration :: int
  BanThreshold :: uint32
  RPCUser :: string
  RPCPass :: string
  RPCListeners :: "string list"
  DisableRPC :: bool
  DisableTLS :: bool
  DbType :: string
  AddPeers :: "string list"
  ConnectPeers :: "string list"
  ProxyAddr :: string
  MaxOrphanTxs :: int
  Generate :: bool
  MiningAddrs :: "string list"
  BlockMinSize :: uint32
  BlockMaxSize :: uint32
  BlockPrioritySize :: uint32
  AcceptNonStd :: bool
  DropTxIndex :: bool
  DropAddrIndex :: bool
  DropExistsAddrIndex :: bool
  DropCFIndex :: bool
  PipeRx :: nat
  PipeTx :: nat
  LifetimeEvents :: bool
  miningAddrs :: "address list"
  minRelayTxFee :: amount
  ipv4NetInfo :: NetworksResult
  ipv6NetInfo :: NetworksResult

record serviceOptions =
  ServiceCommand :: string

text \<open>
  The parameters of the active network: \<open>chaincfg.MainNetParams\<close> comes from another
  package, so the fields the loader reads are parameters here; \<open>rpcPort\<close> is the one
  value \<open>mainNetParams\<close> sets itself.
\<close>

record chainParams =
  NetName :: string
  DefaultPort :: string
  AcceptNonStdTxs :: bool
  MaximumBlockSizes0 :: int

record params =
  Params :: chainParams
  rpcPort :: string

definition mainNetParams :: "chainParams \<Rightarrow> params" where
  "mainNetParams MainNetParams = \<lparr>Params = MainNetParams, rpcPort = ''9109''\<rparr>"

subsection \<open>The environment\<close>

text \<open>
  Everything \<open>loadConfig\<close> and \<open>dcrdMain\<close> get from outside the repository, one field
  for each call or package variable: the command line and configuration file parsers
  of go-flags (they take the configuration to fill in and return it with the error),
  the file system (with what \<open>cleanAndExpandPath\<close> makes of a path from the process
  environment and the user database), the resolver, the address and amount parsers of
  dcrutil, the listener classification \<open>parseListeners\<close>, the values \<open>remainingArgs\<close> and
  \<open>logRotator\<close> that the code names without declaring, the block database, the index
  droppers, the server constructor, and the state of the shutdown context at each of
  the three places \<open>dcrdMain\<close> looks at it and at its final wait.
\<close>

record environment =
  chaincfg_MainNetParams :: chainParams
  dcrutil_AppDataDir :: string
  filepath_Join :: "string \<Rightarrow> string \<Rightarrow> string"
  database_SupportedDrivers :: "string list"
  mempool_DefaultBlockPrioritySize :: uint32
  runServiceCommand :: "(string \<Rightarrow> error option) option"
  commandLineParse :: "config \<Rightarrow> error option \<times> config"
  iniParseFile :: "string \<Rightarrow> config \<Rightarrow> error option \<times> config"
  os_MkdirAll :: "string \<Rightarrow> error option"
  os_Readlink :: "string \<Rightarrow> error + string"
  cleanAndExpandPath :: "string \<Rightarrow> string"
  net_LookupHost :: "string \<Rightarrow> error + string list"
  dcrutil_NewAmount :: "error + amount"
  dcrutil_DecodeAddress :: "string \<Rightarrow> error + address"
  IsForNet :: "address \<Rightarrow> bool"
  parseListeners :: "string list \<Rightarrow> error + (string list \<times> string list)"
  remainingArgs :: "string list"
  logRotatorSet :: bool
  ctxAtCheck :: "nat \<Rightarrow> ctxState"
  ctxEverCanceled :: bool
  loadBlockDB :: "error option"
  indexers_DropAddrIndex :: "error option"
  indexers_DropTxIndex :: "error option"
  indexers_DropExistsAddrIndex :: "error option"
  indexers_DropCfIndex :: "error option"
  newServer :: "string list \<Rightarrow> string \<Rightarrow> error option"

definition activeNetParams :: "environment \<Rightarrow> params" where
  "activeNetParams env = mainNetParams (chaincfg_MainNetParams env)"

definition defaultHomeDir :: "environment \<Rightarrow> string" where
  "defaultHomeDir env = dcrutil_AppDataDir env"

definition defaultConfigFile :: "environment \<Rightarrow> string" where
  "defaultConfigFile env = filepath_Join env (defaultHomeDir env) defaultConfigFilename"

definition defaultDataDir :: "environment \<Rightarrow> string" where
  "defaultDataDir env = filepath_Join env (defaultHomeDir env) defaultDataDirname"

definition knownDbTypes :: "environment \<Rightarrow> string list" where
  "knownDbTypes env = database_SupportedDrivers env"

subsection \<open>Helpers of loadConfig\<close>

text \<open>The loop of \<open>validDbType\<close> over the known database types.\<close>

fun validDbTypeLoop :: "string \<Rightarrow> string list \<Rightarrow> bool" where
  "validDbTypeLoop dbType [] = False"
| "validDbTypeLoop dbType (knownType # rest) =
     (if dbType = knownType then True else validDbTypeLoop dbType rest)"

definition validDbType :: "environment \<Rightarrow> string \<Rightarrow> bool" where
  "validDbType env dbType = validDbTypeLoop dbType (knownDbTypes env)"

text \<open>The type assertions \<open>err.(*flags.Error)\<close> and \<open>err.(*os.PathError)\<close>.\<close>

definition asFlagsError :: "error \<Rightarrow> flagsErrorType option" where
  "asFlagsError err = (case err of FlagsError t msg \<Rightarrow> Some t | _ \<Rightarrow> None)"

definition isPathError :: "error \<Rightarrow> bool" where
  "isPathError err = (case err of PathError path kind \<Rightarrow> True | _ \<Rightarrow> False)"

text \<open>
  The nicer message for a home directory that is a symlink to a directory that does
  not exist: the error is replaced when it is a path error for which \<open>os.IsExist\<close>
  holds and the path can be read as a link.
\<close>

definition symlinkHint :: "environment \<Rightarrow> error \<Rightarrow> error" where
  "symlinkHint env err =
     (case err of
        PathError path kind \<Rightarrow>
          (if kind = KindExist then
             (case os_Readlink env path of
                Inr link \<Rightarrow> SymlinkNotMounted path link
              | Inl lerr \<Rightarrow> err)
           else err)
      | _ \<Rightarrow> err)"

text \<open>
  The loop over \<open>cfg.MiningAddrs\<close>: each address is decoded and must be for the
  active network; the decoded addresses are appended in order.
\<close>

fun decodeMiningAddrs :: "environment \<Rightarrow> string list \<Rightarrow> address list \<Rightarrow> error + address list" where
  "decodeMiningAddrs env [] decoded = Inr decoded"
| "decodeMiningAddrs env (strAddr # rest) decoded =
     (case dcrutil_DecodeAddress env strAddr of
        Inl err \<Rightarrow> Inl (MiningAddrDecodeFailed strAddr err)
      | Inr addr \<Rightarrow>
          if \<not> IsForNet env addr then Inl (MiningAddrWrongNetwork strAddr)
          else decodeMiningAddrs env rest (decoded @ [addr]))"

definition allowedTLSListeners :: "string \<rightharpoonup> unit" where
  "allowedTLSListeners = [''localhost'' \<mapsto> (), ''127.0.0.1'' \<mapsto> (), ''::1'' \<mapsto> ()]"

text \<open>The loop over the RPC listeners when TLS is disabled; \<open>None\<close> is no error.\<close>

fun checkTLSListeners :: "string list \<Rightarrow> error option" where
  "checkTLSListeners [] = None"
| "checkTLSListeners (addr # rest) =
     (case SplitHostPort addr of
        Inl err \<Rightarrow> Some (InvalidRPCListenInterface addr (SplitError err))
      | Inr (host, port) \<Rightarrow>
          (case allowedTLSListeners host of
             None \<Rightarrow> Some (NoTLSOnNonLocalhost addr)
           | Some _ \<Rightarrow> checkTLSListeners rest))"

text \<open>
  \<open>parseNetworkInterfaces\<close> updates the configuration it points to and returns an
  error or nil; the model returns the error or the updated configuration.
\<close>

definition parseNetworkInterfaces :: "environment \<Rightarrow> config \<Rightarrow> error + config" where
  "parseNetworkInterfaces env cfg =
     (case parseListeners env (Listeners cfg) of
        Inl err \<Rightarrow> Inl err
      | Inr (v4Addrs, v6Addrs) \<Rightarrow>
          let cfg = (if length v4Addrs > 0
                     then cfg\<lparr>ipv4NetInfo := (ipv4NetInfo cfg)
                            \<lparr>Reachable := \<not> DisableListen cfg,
                             Limited := (length v6Addrs = 0),
                             Proxy := ProxyAddr cfg\<rparr>\<rparr>
                     else cfg);
              cfg = (if length v6Addrs > 0
                     then cfg\<lparr>ipv6NetInfo := (ipv6NetInfo cfg)
                            \<lparr>Reachable := \<not> DisableListen cfg,
                             Limited := (length v4Addrs = 0),
                             Proxy := ProxyAddr cfg\<rparr>\<rparr>
                     else cfg)
          in Inr cfg)"

subsection \<open>loadConfig\<close>

definition defaultConfig :: "environment \<Rightarrow> config" where
  "defaultConfig env =
     \<lparr>HomeDir = defaultHomeDir env,
      ConfigFile = defaultConfigFile env,
      DataDir = defaultDataDir env,
      NoFileLogging = False,
      DisableListen = False,
      Listeners = [],
      MaxSameIP = defaultMaxSameIP,
      MaxPeers = defaultMaxPeers,
      BanDuration = defaultBanDuration,
      BanThreshold = defaultBanThreshold,
      RPCUser = [],
      RPCPass = [],
      RPCListeners = [],
      DisableRPC = False,
      DisableTLS = False,
      DbType = defaultDbType,
      AddPeers = [],
      ConnectPeers = [],
      ProxyAddr = [],
      MaxOrphanTxs = defaultMaxOrphanTransactions,
      Generate = defaultGenerate,
      MiningAddrs = [],
      BlockMinSize = defaultBlockMinSize,
      BlockMaxSize = defaultBlockMaxSize,
      BlockPrioritySize = mempool_DefaultBlockPrioritySize env,
      AcceptNonStd = False,
      DropTxIndex = False,
      DropAddrIndex = False,
      DropExistsAddrIndex = False,
      DropCFIndex = False,
      PipeRx = 0,
      PipeTx = 0,
      LifetimeEvents = False,
      miningAddrs = [],
      minRelayTxFee = 0,
      ipv4NetInfo = \<lparr>Name = ''IPV4'', Limited = False, Reachable = False, Proxy = []\<rparr>,
      ipv6NetInfo = \<lparr>Name = ''IPV6'', Limited = False, Reachable = False, Proxy = []\<rparr>\<rparr>"

text \<open>
  The first part of \<open>loadConfig\<close>, up to and including the configuration file: the
  default configuration, the pre-parse of the command line into a copy of it, the two
  exits of the pre-parse, the service command, and the parse of the configuration file
  when the pre-parse names one other than the default. \<open>newConfigParser\<close> builds the
  parser from the configuration alone, so the service options stay as initialised.
  Creating the default configuration file writes a file and prints; it does not change
  what the function returns and is not modelled, nor are the messages printed before
  an exit. The comment of \<open>loadConfig\<close> lists a final parse of the command line
  into the configuration as its fourth step; the function has no such call, so the
  options of the command line reach only the copy \<open>preCfg\<close>.
\<close>

definition loadConfig_parse :: "environment \<Rightarrow> (error + config) outcome" where
  "loadConfig_parse env =
     (let cfg = defaultConfig env;
          serviceOpts = \<lparr>ServiceCommand = []\<rparr>;
          preCfg = cfg
      in case commandLineParse env preCfg of
        (err, preCfg) \<Rightarrow>
          (case (case err of None \<Rightarrow> None | Some e \<Rightarrow> asFlagsError e) of
             Some t \<Rightarrow> (if t \<noteq> ErrHelp then Exit 1 else Exit 0)
           | None \<Rightarrow>
               if ServiceCommand serviceOpts \<noteq> [] \<and> runServiceCommand env \<noteq> None then Exit 0
               else if ConfigFile preCfg \<noteq> defaultConfigFile env then
                 (case iniParseFile env (ConfigFile preCfg) cfg of
                    (err, cfg) \<Rightarrow>
                      (case err of
                         Some e \<Rightarrow> if \<not> isPathError e then Return (Inl e) else Return (Inr cfg)
                       | None \<Rightarrow> Return (Inr cfg)))
               else Return (Inr cfg)))"

text \<open>
  The blocks of the rest of \<open>loadConfig\<close> that change the configuration, each as a
  function from the configuration before to the configuration after, in the order of
  the source. First the policy and data directory of the active network.
\<close>

definition setNetworkDefaults :: "environment \<Rightarrow> config \<Rightarrow> config" where
  "setNetworkDefaults env cfg =
     (let cfg = cfg\<lparr>AcceptNonStd := AcceptNonStdTxs (Params (activeNetParams env))\<rparr>;
          cfg = cfg\<lparr>DataDir := cleanAndExpandPath env (DataDir cfg)\<rparr>
      in cfg\<lparr>DataDir := filepath_Join env (DataDir cfg) (NetName (Params (activeNetParams env)))\<rparr>)"

text \<open>The default listener, when none is given.\<close>

definition addDefaultListener :: "environment \<Rightarrow> config \<Rightarrow> config" where
  "addDefaultListener env cfg =
     (if length (Listeners cfg) = 0
      then cfg\<lparr>Listeners := [JoinHostPort [] (DefaultPort (Params (activeNetParams env)))]\<rparr>
      else cfg)"

text \<open>The RPC server is disabled if no username or password is provided.\<close>

definition disableRPCWithoutCredentials :: "config \<Rightarrow> config" where
  "disableRPCWithoutCredentials cfg =
     (if RPCUser cfg = [] \<or> RPCPass cfg = [] then cfg\<lparr>DisableRPC := True\<rparr> else cfg)"

text \<open>
  The RPC server listens on localhost by default; the resolver may fail. The loop
  appends the joined address of each resolved host, in order.
\<close>

definition addDefaultRPCListeners :: "environment \<Rightarrow> config \<Rightarrow> error + config" where
  "addDefaultRPCListeners env cfg =
     (if \<not> DisableRPC cfg \<and> length (RPCListeners cfg) = 0 then
        (case net_LookupHost env ''localhost'' of
           Inl err \<Rightarrow> Inl err
         | Inr addrs \<Rightarrow>
             Inr (cfg\<lparr>RPCListeners :=
                         map (\<lambda>addr. JoinHostPort addr (rpcPort (activeNetParams env))) addrs\<rparr>))
      else Inr cfg)"

text \<open>The block priority and minimum block sizes are limited to the maximum block size.\<close>

definition limitBlockSizes :: "config \<Rightarrow> config" where
  "limitBlockSizes cfg =
     (let cfg = cfg\<lparr>BlockPrioritySize := minUint32 (BlockPrioritySize cfg) (BlockMaxSize cfg)\<rparr>
      in cfg\<lparr>BlockMinSize := minUint32 (BlockMinSize cfg) (BlockMaxSize cfg)\<rparr>)"

text \<open>The listener and RPC listener addresses get their default ports and lose duplicates.\<close>

definition normalizeListeners :: "environment \<Rightarrow> config \<Rightarrow> config" where
  "normalizeListeners env cfg =
     (let cfg = cfg\<lparr>Listeners :=
                      normalizeAddresses (Listeners cfg) (DefaultPort (Params (activeNetParams env)))\<rparr>
      in cfg\<lparr>RPCListeners :=
                 normalizeAddresses (RPCListeners cfg) (rpcPort (activeNetParams env))\<rparr>)"

text \<open>So do the addresses of the peers added and of the peers to connect to.\<close>

definition normalizePeers :: "environment \<Rightarrow> config \<Rightarrow> config" where
  "normalizePeers env cfg =
     (let cfg = cfg\<lparr>AddPeers :=
                      normalizeAddresses (AddPeers cfg) (DefaultPort (Params (activeNetParams env)))\<rparr>
      in cfg\<lparr>ConnectPeers :=
                 normalizeAddresses (ConnectPeers cfg) (DefaultPort (Params (activeNetParams env)))\<rparr>)"

text \<open>
  The rest of \<open>loadConfig\<close>, from the creation of the home directory to the return:
  it works on the configuration the first part produced, returns \<open>nil, nil, err\<close>
  (here \<open>Inl err\<close>) at the first failed check, and the configuration with the remaining
  arguments otherwise. It never exits the process. Setting the dial and lookup
  functions touches fields the model does not carry.
\<close>

definition loadConfig_validate :: "environment \<Rightarrow> config \<Rightarrow> error + (config \<times> string list)" where
  "loadConfig_validate env cfg =
     (case os_MkdirAll env (HomeDir cfg) of
        Some err \<Rightarrow> Inl (FailedToCreateHomeDir (symlinkHint env err))
      | None \<Rightarrow>
     let cfg = setNetworkDefaults env cfg in
     if \<not> validDbType env (DbType cfg) then Inl (InvalidDbType (DbType cfg) (knownDbTypes env))
     else if BanDuration cfg < time_Second then Inl (BanDurationTooShort (BanDuration cfg))
     else
     let cfg = addDefaultListener env cfg;
         cfg = disableRPCWithoutCredentials cfg
     in
     case addDefaultRPCListeners env cfg of
       Inl err \<Rightarrow> Inl err
     | Inr cfg \<Rightarrow>
     (case dcrutil_NewAmount env of
        Inl err \<Rightarrow> Inl (InvalidMinRelayTxFee err)
      | Inr fee \<Rightarrow>
     let cfg = cfg\<lparr>minRelayTxFee := fee\<rparr>;
         blockMaxSizeMax =
           (word_of_int (MaximumBlockSizes0 (Params (activeNetParams env))) :: uint32) - 1000
     in
     if BlockMaxSize cfg < blockMaxSizeMin \<or> BlockMaxSize cfg > blockMaxSizeMax
       then Inl (BlockMaxSizeOutOfRange blockMaxSizeMin blockMaxSizeMax (BlockMaxSize cfg))
     else if MaxOrphanTxs cfg < 0 then Inl (MaxOrphanTxNegative (MaxOrphanTxs cfg))
     else
     let cfg = limitBlockSizes cfg in
     case decodeMiningAddrs env (MiningAddrs cfg) [] of
       Inl err \<Rightarrow> Inl err
     | Inr addrs \<Rightarrow>
     let cfg = cfg\<lparr>miningAddrs := addrs\<rparr> in
     if Generate cfg \<and> length (MiningAddrs cfg) = 0 then Inl GenerateWithoutMiningAddrs
     else
     let cfg = normalizeListeners env cfg in
     case (if \<not> DisableRPC cfg \<and> DisableTLS cfg then checkTLSListeners (RPCListeners cfg)
           else None) of
       Some err \<Rightarrow> Inl err
     | None \<Rightarrow>
     let cfg = normalizePeers env cfg in
     case parseNetworkInterfaces env cfg of
       Inl err \<Rightarrow> Inl err
     | Inr cfg \<Rightarrow> Inr (cfg, remainingArgs env)))"

definition loadConfig :: "environment \<Rightarrow> (error + (config \<times> string list)) outcome" where
  "loadConfig env =
     (case loadConfig_parse env of
        Exit status \<Rightarrow> Exit status
      | Return (Inl err) \<Rightarrow> Return (Inl err)
      | Return (Inr cfg) \<Rightarrow> Return (loadConfig_validate env cfg))"

section \<open>The main function of the daemon\<close>

text \<open>
  What \<open>dcrdMain\<close> and \<open>fatalf\<close> do to the world, in the order they do it: log lines,
  goroutines started, and calls into the database, the indexers, the lifetime notifier
  and the server.
\<close>

datatype event =
    LogInfo string
  | LogError error
  | LogErrorUnableToCreateProfiler string
  | StdoutSync
  | LogRotatorClose
  | ShutdownListenerStarted
  | NewLifetimeEventServer
  | GoServiceControlPipeRx nat
  | GoServiceControlPipeTx nat
  | GoDrainOutgoingPipeMessages
  | LoadBlockDBCalled
  | DatabaseClose
  | DropAddrIndexCalled
  | DropTxIndexCalled
  | DropExistsAddrIndexCalled
  | DropCfIndexCalled
  | NotifyStartupEventP2PServer
  | NewServerCalled
  | ServerStart
  | NotifyShutdownEventP2PServer
  | ServerStop
  | ServerWaitForShutdown
  | NotifyStartupComplete
  | SendServiceStartOfDay

text \<open>
  How a run of \<open>dcrdMain\<close> ends: the process exits inside \<open>loadConfig\<close>, the function
  returns an error or nil, or it stays in its final wait for the context, which is
  never canceled.
\<close>

datatype mainOutcome = ProcessExit int | Returned "error option" | WaitsForever

text \<open>
  \<open>dcrdMain\<close>. The deferred calls run when the function returns, last deferred first;
  \<open>d1\<close> to \<open>d4\<close> are what each \<open>defer\<close> statement adds, in the order of the
  statements. The context is looked at three times, at checks 0, 1 and 2.
\<close>

definition dcrdMain :: "environment \<Rightarrow> mainOutcome \<times> event list" where
  "dcrdMain env =
     (case loadConfig env of
        Exit status \<Rightarrow> (ProcessExit status, [])
      | Return (Inl err) \<Rightarrow> (Returned (Some err), [])
      | Return (Inr (tcfg, args)) \<Rightarrow>
     let cfg = tcfg;
         d1 = (if logRotatorSet env then [LogRotatorClose] else []);
         t = [ShutdownListenerStarted];
         d2 = [LogInfo ''Shutdown complete''];
         t = t @ (if NoFileLogging cfg then [LogInfo ''File logging disabled''] else []);
         t = t @ (if LifetimeEvents cfg then [NewLifetimeEventServer] else []);
         t = t @ (if PipeRx cfg \<noteq> 0 then [GoServiceControlPipeRx (PipeRx cfg)] else []);
         t = t @ (if PipeTx cfg \<noteq> 0 then [GoServiceControlPipeTx (PipeTx cfg)]
                  else [GoDrainOutgoingPipeMessages])
     in
     if shutdownRequested (ctxAtCheck env 0) then (Returned None, t @ d2 @ d1)
     else
     let t = t @ [LoadBlockDBCalled] in
     case loadBlockDB env of
       Some err \<Rightarrow> (Returned (Some err), t @ [LogError err] @ d2 @ d1)
     | None \<Rightarrow>
     let d3 = [LogInfo ''Gracefully shutting down the database...'', DatabaseClose] in
     if shutdownRequested (ctxAtCheck env 1) then (Returned None, t @ d3 @ d2 @ d1)
     else if DropAddrIndex cfg then
       (case indexers_DropAddrIndex env of
          Some err \<Rightarrow>
            (Returned (Some err), t @ [DropAddrIndexCalled, LogError err] @ d3 @ d2 @ d1)
        | None \<Rightarrow> (Returned None, t @ [DropAddrIndexCalled] @ d3 @ d2 @ d1))
     else if DropTxIndex cfg then
       (case indexers_DropTxIndex env of
          Some err \<Rightarrow>
            (Returned (Some err), t @ [DropTxIndexCalled, LogError err] @ d3 @ d2 @ d1)
        | None \<Rightarrow> (Returned None, t @ [DropTxIndexCalled] @ d3 @ d2 @ d1))
     else if DropExistsAddrIndex cfg then
       (case indexers_DropExistsAddrIndex env of
          Some err \<Rightarrow>
            (Returned (Some err), t @ [DropExistsAddrIndexCalled, LogError err] @ d3 @ d2 @ d1)
        | None \<Rightarrow> (Returned None, t @ [DropExistsAddrIndexCalled] @ d3 @ d2 @ d1))
     else if DropCFIndex cfg then
       (case indexers_DropCfIndex env of
          Some err \<Rightarrow>
            (Returned (Some err), t @ [DropCfIndexCalled, LogError err] @ d3 @ d2 @ d1)
        | None \<Rightarrow> (Returned None, t @ [DropCfIndexCalled] @ d3 @ d2 @ d1))
     else
     let t = t @ [NotifyStartupEventP2PServer, NewServerCalled] in
     case newServer env (Listeners cfg) (DataDir cfg) of
       Some err \<Rightarrow> (Returned (Some err), t @ [LogError err] @ d3 @ d2 @ d1)
     | None \<Rightarrow>
     let d4 = [NotifyShutdownEventP2PServer, LogInfo ''Gracefully shutting down the server...'',
               ServerStop, ServerWaitForShutdown, LogInfo ''Server shutdown complete''];
         t = t @ [ServerStart]
     in
     if shutdownRequested (ctxAtCheck env 2) then (Returned None, t @ d4 @ d3 @ d2 @ d1)
     else
     let t = t @ [NotifyStartupComplete, SendServiceStartOfDay] in
     if ctxEverCanceled env then (Returned None, t @ d4 @ d3 @ d2 @ d1)
     else (WaitsForever, t))"

text \<open>\<open>fatalf\<close> logs, syncs standard output, closes the log rotator if there is one, and exits.\<close>

definition fatalf :: "environment \<Rightarrow> string \<Rightarrow> mainOutcome \<times> event list" where
  "fatalf env str =
     (ProcessExit 1,
      [LogErrorUnableToCreateProfiler str, StdoutSync]
      @ (if logRotatorSet env then [LogRotatorClose] else []))"

subsection \<open>Example environments\<close>

text \<open>
  An environment in which every call succeeds: no command line options, no
  configuration file other than the default, a home directory that can be created, the
  default database driver known, and a context that is canceled only during the final
  wait. The paths and parameters are those of a main network node.
\<close>

definition quietEnv :: environment where
  "quietEnv =
     \<lparr>chaincfg_MainNetParams =
        \<lparr>NetName = ''mainnet'', DefaultPort = ''9108'', AcceptNonStdTxs = False,
         MaximumBlockSizes0 = 393216\<rparr>,
      dcrutil_AppDataDir = ''/home/user/.dcrd'',
      filepath_Join = (\<lambda>a b. a @ ''/'' @ b),
      database_SupportedDrivers = [''ffldb''],
      mempool_DefaultBlockPrioritySize = 20000,
      runServiceCommand = None,
      commandLineParse = (\<lambda>cfg. (None, cfg)),
      iniParseFile = (\<lambda>file cfg. (None, cfg)),
      os_MkdirAll = (\<lambda>path. None),
      os_Readlink = (\<lambda>path. Inl (LibraryError ''readlink'')),
      cleanAndExpandPath = (\<lambda>path. path),
      net_LookupHost = (\<lambda>host. Inr [''127.0.0.1'']),
      dcrutil_NewAmount = Inr 10000,
      dcrutil_DecodeAddress = (\<lambda>s. Inr s),
      IsForNet = (\<lambda>addr. True),
      parseListeners = (\<lambda>addrs. Inr (addrs, addrs)),
      remainingArgs = [],
      logRotatorSet = True,
      ctxAtCheck = (\<lambda>k. \<lparr>canceled = False\<rparr>),
      ctxEverCanceled = True,
      loadBlockDB = None,
      indexers_DropAddrIndex = None,
      indexers_DropTxIndex = None,
      indexers_DropExistsAddrIndex = None,
      indexers_DropCfIndex = None,
      newServer = (\<lambda>listeners dataDir. None)\<rparr>"

text \<open>The same with \<open>--help\<close> on the command line: the pre-parse reports the help error.\<close>

definition helpEnv :: environment where
  "helpEnv = quietEnv\<lparr>commandLineParse := (\<lambda>cfg. (Some (FlagsError ErrHelp ''Usage''), cfg))\<rparr>"

text \<open>The same with an option the parser does not know.\<close>

definition unknownFlagEnv :: environment where
  "unknownFlagEnv =
     quietEnv\<lparr>commandLineParse := (\<lambda>cfg. (Some (FlagsError ErrOther ''unknown flag''), cfg))\<rparr>"

text \<open>
  The same with a configuration file named on the command line that sets
  \<open>banduration=500ms\<close>.
\<close>

definition shortBanEnv :: environment where
  "shortBanEnv =
     quietEnv\<lparr>commandLineParse := (\<lambda>cfg. (None, cfg\<lparr>ConfigFile := ''/etc/dcrd.conf''\<rparr>)),
              iniParseFile := (\<lambda>file cfg. (None, cfg\<lparr>BanDuration := 500000000\<rparr>))\<rparr>"

text \<open>The quiet environment with the context already canceled at the first check.\<close>

definition canceledEnv :: environment where
  "canceledEnv = quietEnv\<lparr>ctxAtCheck := (\<lambda>k. \<lparr>canceled = True\<rparr>)\<rparr>"

text \<open>The quiet environment with the context canceled while the block database loads.\<close>

definition canceledWhileLoadingEnv :: environment where
  "canceledWhileLoadingEnv = quietEnv\<lparr>ctxAtCheck := (\<lambda>k. \<lparr>canceled = (1 \<le> k)\<rparr>)\<rparr>"

subsection \<open>The limits of a configuration\<close>

text \<open>
  The four limits of the configuration that the peer-to-peer layer consumes, as one
  value: maximum peers, maximum connections per IP, ban duration and ban threshold.
\<close>

definition limitsOf :: "config \<Rightarrow> int \<times> int \<times> int \<times> uint32" where
  "limitsOf cfg = (MaxPeers cfg, MaxSameIP cfg, BanDuration cfg, BanThreshold cfg)"

section \<open>Lemmas about the string helpers\<close>

lemma IndexByte_None_iff: "IndexByte s c = None \<longleftrightarrow> c \<notin> set s"
  by (induction s) auto

lemma IndexByte_first: "c \<notin> set xs \<Longrightarrow> IndexByte (xs @ c # ys) c = Some (length xs)"
  by (induction xs) auto

lemma LastIndexByte_last: "c \<notin> set ys \<Longrightarrow> LastIndexByte (xs @ c # ys) c = Some (length xs)"
proof -
  assume "c \<notin> set ys"
  then have "IndexByte (rev ys @ c # rev xs) c = Some (length (rev ys))"
    by (intro IndexByte_first) simp
  then show ?thesis
    by (simp add: LastIndexByte_def)
qed

lemma drop_exact_prefix: "n = length xs \<Longrightarrow> drop n (xs @ ys) = ys"
  by simp

text \<open>The two successful paths of \<open>SplitHostPort\<close>, for any string with the right shape.\<close>

lemma SplitHostPort_plain_case:
  assumes "LastIndexByte s CHR '':'' = Some i" "s ! 0 \<noteq> CHR ''[''"
    and "IndexByte (take i s) CHR '':'' = None"
    and "IndexByte s CHR ''['' = None" "IndexByte s CHR '']'' = None"
  shows "SplitHostPort s = Inr (take i s, drop (i + 1) s)"
  using assms by (simp add: SplitHostPort_def Let_def)

lemma SplitHostPort_bracket_case:
  assumes "LastIndexByte s CHR '':'' = Some i" "s ! 0 = CHR ''[''"
    and "IndexByte s CHR '']'' = Some e" "e + 1 \<noteq> length s" "e + 1 = i"
    and "IndexByte (drop 1 s) CHR ''['' = None"
    and "IndexByte (drop (e + 1) s) CHR '']'' = None"
  shows "SplitHostPort s = Inr (take (e - 1) (drop 1 s), drop (i + 1) s)"
  using assms by (simp add: SplitHostPort_def Let_def)

lemma SplitHostPort_plain:
  assumes "CHR '':'' \<notin> set a" "CHR ''['' \<notin> set a" "CHR '']'' \<notin> set a"
    and "CHR '':'' \<notin> set p" "CHR ''['' \<notin> set p" "CHR '']'' \<notin> set p"
  shows "SplitHostPort (a @ CHR '':'' # p) = Inr (a, p)"
proof -
  define s where "s = a @ CHR '':'' # p"
  have i: "LastIndexByte s CHR '':'' = Some (length a)"
    unfolding s_def using assms(4) by (rule LastIndexByte_last)
  have h: "s ! 0 \<noteq> CHR ''[''"
    unfolding s_def using assms(2) by (cases a) auto
  have t: "take (length a) s = a" and d: "drop (length a + 1) s = p"
    by (simp_all add: s_def)
  have n: "IndexByte (take (length a) s) CHR '':'' = None"
    using assms(1) by (simp add: t IndexByte_None_iff)
  have o: "IndexByte s CHR ''['' = None" "IndexByte s CHR '']'' = None"
    using assms by (simp_all add: s_def IndexByte_None_iff)
  from SplitHostPort_plain_case [OF i h n o] have "SplitHostPort s = Inr (a, p)"
    by (simp only: t d)
  then show ?thesis
    unfolding s_def .
qed

lemma SplitHostPort_bracketed:
  assumes "CHR ''['' \<notin> set a" "CHR '']'' \<notin> set a"
    and "CHR '':'' \<notin> set p" "CHR ''['' \<notin> set p" "CHR '']'' \<notin> set p"
  shows "SplitHostPort (CHR ''['' # a @ CHR '']'' # CHR '':'' # p) = Inr (a, p)"
proof -
  define s where "s = CHR ''['' # a @ CHR '']'' # CHR '':'' # p"
  have "LastIndexByte ((CHR ''['' # a @ [CHR '']'']) @ CHR '':'' # p) CHR '':''
          = Some (length (CHR ''['' # a @ [CHR '']'']))"
    using assms(3) by (rule LastIndexByte_last)
  then have i: "LastIndexByte s CHR '':'' = Some (length a + 2)"
    by (simp add: s_def)
  have h: "s ! 0 = CHR ''[''"
    by (simp add: s_def)
  have "IndexByte ((CHR ''['' # a) @ CHR '']'' # CHR '':'' # p) CHR '']''
          = Some (length (CHR ''['' # a))"
    using assms(2) by (intro IndexByte_first) simp
  then have e: "IndexByte s CHR '']'' = Some (length a + 1)"
    by (simp add: s_def)
  have l: "length a + 1 + 1 \<noteq> length s" and m: "length a + 1 + 1 = length a + 2"
    by (simp_all add: s_def)
  have j: "IndexByte (drop 1 s) CHR ''['' = None"
    using assms by (simp add: s_def IndexByte_None_iff)
  have k: "IndexByte (drop (length a + 1 + 1) s) CHR '']'' = None"
    using assms by (simp add: s_def IndexByte_None_iff)
  have t: "take (length a + 1 - 1) (drop 1 s) = a"
    by (simp add: s_def)
  have d: "drop (length a + 2 + 1) s = p"
    using drop_exact_prefix [of "length a + 2 + 1" "CHR ''['' # a @ '']:''" p]
    by (simp add: s_def)
  from SplitHostPort_bracket_case [OF i h e l m j k] have "SplitHostPort s = Inr (a, p)"
    by (simp only: t d)
  then show ?thesis
    unfolding s_def .
qed

text \<open>
  Joining and splitting again gives the host and the port back, when the host has no
  bracket and the port has neither a colon nor a bracket.
\<close>

lemma SplitHostPort_JoinHostPort:
  assumes "CHR ''['' \<notin> set a" "CHR '']'' \<notin> set a"
    and "CHR '':'' \<notin> set p" "CHR ''['' \<notin> set p" "CHR '']'' \<notin> set p"
  shows "SplitHostPort (JoinHostPort a p) = Inr (a, p)"
proof (cases "CHR '':'' \<in> set a")
  case True
  then show ?thesis
    using SplitHostPort_bracketed [OF assms] by (simp add: JoinHostPort_def IndexByte_None_iff)
next
  case False
  then show ?thesis
    using SplitHostPort_plain [OF False assms] by (simp add: JoinHostPort_def IndexByte_None_iff)
qed

section \<open>Lemmas about removeDuplicateAddresses\<close>







section \<open>Lemmas about the service flags\<close>

lemma sub_flag: "f AND m = m \<Longrightarrow> f - m = f AND NOT m" for f m :: "'a::len word"
proof (rule disjunctive_diff)
  fix n assume "f AND m = m" "bit m n"
  then have "bit (f AND m) n" by simp
  then show "bit f n" by (simp add: bit_and_iff)
qed

text \<open>The test of the loop on a single-bit flag is the test of that bit.\<close>

lemma flag_test: "(f AND 2 ^ n = 2 ^ n) \<longleftrightarrow> bit f n" if "n < 64" for f :: uint64
proof
  assume "f AND 2 ^ n = 2 ^ n"
  then have "bit (f AND 2 ^ n) n = bit (2 ^ n :: uint64) n" by simp
  with that show "bit f n" by (simp add: bit_and_iff bit_exp_iff)
next
  assume "bit f n"
  then show "f AND 2 ^ n = 2 ^ n"
    by (intro bit_eqI) (auto simp: bit_and_iff bit_exp_iff)
qed

lemma flag_values:
  "SFNodeNetwork = 2 ^ 0" "SFNodeBloom = 2 ^ 1" "SFNodeCF = 2 ^ 2"
  by (simp_all add: SFNodeNetwork_def SFNodeBloom_def SFNodeCF_def)

lemma flag_numerals:
  "SFNodeNetwork = 1" "SFNodeBloom = 2" "SFNodeCF = 4"
  by (simp_all add: SFNodeNetwork_def SFNodeBloom_def SFNodeCF_def)

lemma bit_clear: "bit (f AND NOT (2 ^ n)) k \<longleftrightarrow> bit f k \<and> k \<noteq> n" for f :: uint64
  by (auto simp: bit_and_iff bit_not_iff bit_exp_iff dest: bit_imp_le_length)

lemma step_set: "n < 64 \<Longrightarrow> bit f n \<Longrightarrow> f - 2 ^ n = f AND NOT (2 ^ n)" for f :: uint64
  by (rule sub_flag) (simp add: flag_test)

lemma no_residue: "f AND NOT (2 ^ n) = f" if "\<not> bit f n" for f :: uint64
  using that by (intro bit_eqI) (auto simp: bit_clear)

lemma bit_fold_clear:
  "bit (fold (\<lambda>k g. g AND NOT (2 ^ k)) ns f) k \<longleftrightarrow> bit f k \<and> k \<notin> set ns" for f :: uint64
  by (induction ns arbitrary: f) (auto simp: bit_clear)

text \<open>
  The loop over any list of distinct single-bit flags: the names of the flags whose bit
  is set are appended in order, and exactly the bits of the list are cleared.
\<close>

lemma stringLoop_bits:
  assumes "distinct ns" "\<forall>n \<in> set ns. n < 64"
  shows "stringLoop (map (\<lambda>n. 2 ^ n) ns) (s, f) =
    (s @ concat (map (\<lambda>n. sfStringsAt (2 ^ n) @ ''|'') (filter (bit f) ns)),
     fold (\<lambda>k g. g AND NOT (2 ^ k)) ns f)"
  using assms
proof (induction ns arbitrary: s f)
  case Nil
  show ?case by simp
next
  case (Cons n ns)
  then have n: "n < 64" "n \<notin> set ns" and ns: "distinct ns" "\<forall>n \<in> set ns. n < 64"
    by simp_all
  show ?case
  proof (cases "bit f n")
    case True
    have "filter (bit (f AND NOT (2 ^ n))) ns = filter (bit f) ns"
      using n(2) by (intro filter_cong) (auto simp: bit_clear)
    with True n(1) show ?thesis
      by (simp add: flag_test step_set Cons.IH [OF ns])
  next
    case False
    with n(1) show ?thesis
      by (simp add: flag_test no_residue Cons.IH [OF ns])
  qed
qed

lemma stringLoop_three:
  fixes f a b c :: uint64
  assumes a: "a = 2 ^ i" and b: "b = 2 ^ j" and c: "c = 2 ^ k"
    and lt: "i < 64" "j < 64" "k < 64" and d: "i \<noteq> j" "i \<noteq> k" "j \<noteq> k"
  shows "stringLoop [a, b, c] (s, f) =
     (s @ (if bit f i then sfStringsAt a @ ''|'' else [])
        @ (if bit f j then sfStringsAt b @ ''|'' else [])
        @ (if bit f k then sfStringsAt c @ ''|'' else []),
      f AND NOT (a OR b OR c))"
proof -
  have r: "fold (\<lambda>k g. g AND NOT (2 ^ k)) [i, j, k] f = f AND NOT (a OR b OR c)"
    unfolding a b c
    by (rule bit_eqI)
      (auto simp: bit_fold_clear bit_and_iff bit_not_iff bit_or_iff bit_exp_iff)
  have "stringLoop (map (\<lambda>n. 2 ^ n) [i, j, k]) (s, f) =
    (s @ concat (map (\<lambda>n. sfStringsAt (2 ^ n) @ ''|'') (filter (bit f) [i, j, k])),
     fold (\<lambda>k g. g AND NOT (2 ^ k)) [i, j, k] f)"
    using lt d by (intro stringLoop_bits) simp_all
  then show ?thesis
    unfolding r by (simp add: a b c)
qed

lemma sfStringsAt_simps:
  "sfStringsAt SFNodeNetwork = ''SFNodeNetwork''"
  "sfStringsAt SFNodeBloom = ''SFNodeBloom''"
  "sfStringsAt SFNodeCF = ''SFNodeCF''"
  by (simp_all add: sfStringsAt_def sfStrings_def flag_numerals)

lemma stringLoop_ordered:
  "stringLoop orderedSFStrings (s, f) =
     (s @ (if bit f 0 then ''SFNodeNetwork|'' else [])
        @ (if bit f 1 then ''SFNodeBloom|'' else [])
        @ (if bit f 2 then ''SFNodeCF|'' else []),
      f AND NOT 7)"
proof -
  have r: "SFNodeNetwork OR SFNodeBloom OR SFNodeCF = 7"
    by (simp add: flag_numerals)
  have "stringLoop [SFNodeNetwork, SFNodeBloom, SFNodeCF] (s, f) =
     (s @ (if bit f 0 then sfStringsAt SFNodeNetwork @ ''|'' else [])
        @ (if bit f 1 then sfStringsAt SFNodeBloom @ ''|'' else [])
        @ (if bit f 2 then sfStringsAt SFNodeCF @ ''|'' else []),
      f AND NOT (SFNodeNetwork OR SFNodeBloom OR SFNodeCF))"
    by (rule stringLoop_three [OF flag_values]) simp_all
  then show ?thesis
    unfolding orderedSFStrings_def r sfStringsAt_simps by simp
qed

section \<open>Lemmas about the configuration loader\<close>

lemma shutdownRequested_iff: "shutdownRequested ctx = canceled ctx"
  by (simp add: shutdownRequested_def Done_def)

lemmas config_constants =
  time_Second_def time_Hour_def defaultConfigFilename_def defaultDataDirname_def
  defaultMaxSameIP_def defaultMaxPeers_def defaultBanDuration_def defaultBanThreshold_def
  defaultDbType_def defaultBlockMinSize_def defaultBlockMaxSize_def blockMaxSizeMin_def
  defaultGenerate_def defaultMaxOrphanTransactions_def

lemmas env_derived =
  activeNetParams_def mainNetParams_def defaultHomeDir_def defaultConfigFile_def
  defaultDataDir_def knownDbTypes_def

lemmas validate_steps =
  setNetworkDefaults_def addDefaultListener_def disableRPCWithoutCredentials_def
  addDefaultRPCListeners_def limitBlockSizes_def normalizeListeners_def normalizePeers_def
  parseNetworkInterfaces_def validDbType_def minUint32_def

text \<open>No block of the loader changes the four limits.\<close>

lemma limitsOf_steps [simp]:
  "limitsOf (setNetworkDefaults env c) = limitsOf c"
  "limitsOf (addDefaultListener env c) = limitsOf c"
  "limitsOf (disableRPCWithoutCredentials c) = limitsOf c"
  "limitsOf (limitBlockSizes c) = limitsOf c"
  "limitsOf (normalizeListeners env c) = limitsOf c"
  "limitsOf (normalizePeers env c) = limitsOf c"
  "limitsOf (c\<lparr>minRelayTxFee := fee\<rparr>) = limitsOf c"
  "limitsOf (c\<lparr>miningAddrs := addrs\<rparr>) = limitsOf c"
  by (simp_all add: limitsOf_def setNetworkDefaults_def addDefaultListener_def
      disableRPCWithoutCredentials_def limitBlockSizes_def normalizeListeners_def
      normalizePeers_def Let_def)

lemma limitsOf_addDefaultRPCListeners:
  "addDefaultRPCListeners env c = Inr c' \<Longrightarrow> limitsOf c' = limitsOf c"
  by (auto simp: addDefaultRPCListeners_def limitsOf_def split: if_splits sum.splits)

lemma limitsOf_parseNetworkInterfaces:
  "parseNetworkInterfaces env c = Inr c' \<Longrightarrow> limitsOf c' = limitsOf c"
  by (auto simp: parseNetworkInterfaces_def limitsOf_def Let_def split: sum.splits prod.splits)

lemma BanDuration_setNetworkDefaults [simp]:
  "BanDuration (setNetworkDefaults env c) = BanDuration c"
  by (simp add: setNetworkDefaults_def Let_def)

lemma validate_short_ban:
  assumes "BanDuration pc < time_Second"
  shows "\<exists>err. loadConfig_validate env pc = Inl err"
  using assms
  by (simp add: loadConfig_validate_def Let_def split: option.splits)

lemma validate_limits:
  assumes "loadConfig_validate env pc = Inr (cfg, args)"
  shows "limitsOf cfg = limitsOf pc \<and> time_Second \<le> BanDuration pc"
  using assms unfolding loadConfig_validate_def Let_def
  by (auto split: option.splits sum.splits if_splits
      dest!: limitsOf_parseNetworkInterfaces limitsOf_addDefaultRPCListeners)

text \<open>
  \<open>loadConfig\<close> ends the process exactly when the pre-parse of the command line
  reports a flags error.
\<close>

lemma loadConfig_Exit_iff:
  "loadConfig env = Exit status \<longleftrightarrow>
     (\<exists>t msg. fst (commandLineParse env (defaultConfig env)) = Some (FlagsError t msg)
        \<and> status = (if t \<noteq> ErrHelp then 1 else 0))"
proof (cases "commandLineParse env (defaultConfig env)")
  case (Pair err preCfg)
  show ?thesis
  proof (cases err)
    case None
    with Pair show ?thesis
      by (auto simp: loadConfig_def loadConfig_parse_def Let_def
          split: prod.splits option.splits sum.splits if_splits)
  next
    case (Some e)
    with Pair show ?thesis
      by (cases e)
        (auto simp: loadConfig_def loadConfig_parse_def Let_def asFlagsError_def
          split: prod.splits option.splits sum.splits if_splits)
  qed
qed

lemma dcrdMain_error:
  "loadConfig env = Return (Inl err) \<Longrightarrow> dcrdMain env = (Returned (Some err), [])"
  by (simp add: dcrdMain_def)






section \<open>The example environments\<close>

lemma quietEnv_fields:
  "chaincfg_MainNetParams quietEnv =
        \<lparr>NetName = ''mainnet'', DefaultPort = ''9108'', AcceptNonStdTxs = False,
         MaximumBlockSizes0 = 393216\<rparr>"
  "dcrutil_AppDataDir quietEnv = ''/home/user/.dcrd''"
  "filepath_Join quietEnv = (\<lambda>a b. a @ ''/'' @ b)"
  "database_SupportedDrivers quietEnv = [''ffldb'']"
  "mempool_DefaultBlockPrioritySize quietEnv = 20000"
  "runServiceCommand quietEnv = None"
  "commandLineParse quietEnv = (\<lambda>cfg. (None, cfg))"
  "iniParseFile quietEnv = (\<lambda>file cfg. (None, cfg))"
  "os_MkdirAll quietEnv = (\<lambda>path. None)"
  "os_Readlink quietEnv = (\<lambda>path. Inl (LibraryError ''readlink''))"
  "cleanAndExpandPath quietEnv = (\<lambda>path. path)"
  "net_LookupHost quietEnv = (\<lambda>host. Inr [''127.0.0.1''])"
  "dcrutil_NewAmount quietEnv = Inr 10000"
  "dcrutil_DecodeAddress quietEnv = (\<lambda>s. Inr s)"
  "IsForNet quietEnv = (\<lambda>addr. True)"
  "parseListeners quietEnv = (\<lambda>addrs. Inr (addrs, addrs))"
  "remainingArgs quietEnv = []"
  "logRotatorSet quietEnv = True"
  "ctxAtCheck quietEnv = (\<lambda>k. \<lparr>canceled = False\<rparr>)"
  "ctxEverCanceled quietEnv = True"
  "loadBlockDB quietEnv = None"
  "indexers_DropAddrIndex quietEnv = None"
  "indexers_DropTxIndex quietEnv = None"
  "indexers_DropExistsAddrIndex quietEnv = None"
  "indexers_DropCfIndex quietEnv = None"
  "newServer quietEnv = (\<lambda>listeners dataDir. None)"
  by (simp_all add: quietEnv_def)

lemma parse_quietEnv: "loadConfig_parse quietEnv = Return (Inr (defaultConfig quietEnv))"
  by (simp add: loadConfig_parse_def quietEnv_fields Let_def defaultConfig_def env_derived)

lemma validate_quietEnv:
  "\<exists>cfg args. loadConfig_validate quietEnv (defaultConfig quietEnv) = Inr (cfg, args)"
  by (simp add: loadConfig_validate_def quietEnv_fields defaultConfig_def
      Let_def env_derived config_constants validate_steps)

lemmas evaluate_loadConfig =
  loadConfig_def loadConfig_parse_def loadConfig_validate_def quietEnv_fields defaultConfig_def
  Let_def env_derived config_constants validate_steps asFlagsError_def isPathError_def

lemma loadConfig_quietEnv: "\<exists>cfg args. loadConfig quietEnv = Return (Inr (cfg, args))"
  by (simp add: evaluate_loadConfig)

lemma loadConfig_canceledEnv: "\<exists>cfg args. loadConfig canceledEnv = Return (Inr (cfg, args))"
  by (simp add: canceledEnv_def evaluate_loadConfig)

lemma loadConfig_canceledWhileLoadingEnv:
  "\<exists>cfg args. loadConfig canceledWhileLoadingEnv = Return (Inr (cfg, args))"
  by (simp add: canceledWhileLoadingEnv_def evaluate_loadConfig)

lemma loadConfig_quietEnv_flags:
  "\<exists>cfg args. loadConfig quietEnv = Return (Inr (cfg, args))
     \<and> \<not> DropAddrIndex cfg \<and> \<not> DropTxIndex cfg \<and> \<not> DropExistsAddrIndex cfg
     \<and> \<not> DropCFIndex cfg \<and> \<not> NoFileLogging cfg \<and> \<not> LifetimeEvents cfg
     \<and> PipeRx cfg = 0 \<and> PipeTx cfg = 0"
  by (simp add: evaluate_loadConfig)

text \<open>
  A whole run in the quiet environment: the server is created and started, the
  context is canceled during the final wait, and the deferred calls run last to first.
\<close>

lemma dcrdMain_quietEnv:
  "dcrdMain quietEnv =
     (Returned None,
      [ShutdownListenerStarted, GoDrainOutgoingPipeMessages, LoadBlockDBCalled,
       NotifyStartupEventP2PServer, NewServerCalled, ServerStart, NotifyStartupComplete,
       SendServiceStartOfDay, NotifyShutdownEventP2PServer,
       LogInfo ''Gracefully shutting down the server...'', ServerStop, ServerWaitForShutdown,
       LogInfo ''Server shutdown complete'',
       LogInfo ''Gracefully shutting down the database...'', DatabaseClose,
       LogInfo ''Shutdown complete'', LogRotatorClose])"
proof -
  from loadConfig_quietEnv_flags obtain cfg args where
    "loadConfig quietEnv = Return (Inr (cfg, args))"
    "\<not> DropAddrIndex cfg" "\<not> DropTxIndex cfg" "\<not> DropExistsAddrIndex cfg"
    "\<not> DropCFIndex cfg" "\<not> NoFileLogging cfg" "\<not> LifetimeEvents cfg"
    "PipeRx cfg = 0" "PipeTx cfg = 0"
    by blast
  then show ?thesis
    by (simp add: dcrdMain_def quietEnv_fields shutdownRequested_iff Let_def)
qed

lemma parse_shortBanEnv:
  "loadConfig_parse shortBanEnv =
     Return (Inr ((defaultConfig shortBanEnv)\<lparr>BanDuration := 500000000\<rparr>))"
  by (simp add: shortBanEnv_def loadConfig_parse_def quietEnv_fields defaultConfig_def Let_def
      env_derived config_constants)

lemma loadConfig_shortBanEnv:
  "loadConfig shortBanEnv = Return (Inl (BanDurationTooShort 500000000))"
  by (simp add: shortBanEnv_def evaluate_loadConfig)

lemma preParse_helpEnv:
  "fst (commandLineParse helpEnv (defaultConfig helpEnv)) = Some (FlagsError ErrHelp ''Usage'')"
  by (simp add: helpEnv_def)

lemma preParse_shortBanEnv:
  "fst (commandLineParse shortBanEnv (defaultConfig shortBanEnv)) = None"
  by (simp add: shortBanEnv_def)

section \<open>Theorems\<close>

text \<open>
  C1: for every pair of unsigned 32-bit integers \<open>a\<close> and \<open>b\<close>, \<open>minUint32 a b\<close> is
  \<open>a\<close> when \<open>a < b\<close> and \<open>b\<close> otherwise, that is the minimum of the two, also when
  both are read as unsigned numbers.
\<close>

theorem minUint32_is_min:
  "minUint32 a b = (if a < b then a else b)
   \<and> minUint32 a b = min a b
   \<and> unat (minUint32 a b) = min (unat a) (unat b)"
proof -
  have "unat (if a < b then a else b) = min (unat a) (unat b)"
    by (simp add: min_def word_less_nat_alt)
  moreover have "(if a < b then a else b) = min a b"
    by (auto simp: min_def)
  ultimately show ?thesis
    by (simp add: minUint32_def)
qed

text \<open>
  C2: the feature-gate versions increase strictly in the order base (1), bloom filter
  (2), header announcement (3), larger block size (4), fee filter (5), committed filter
  (6), and the latest supported version is the committed-filter version.
\<close>

theorem protocol_versions_increasing:
  "InitialProcotolVersion = 1 \<and> NodeBloomVersion = 2 \<and> SendHeadersVersion = 3
   \<and> MaxBlockSizeVersion = 4 \<and> FeeFilterVersion = 5 \<and> NodeCFVersion = 6
   \<and> InitialProcotolVersion < NodeBloomVersion
   \<and> NodeBloomVersion < SendHeadersVersion
   \<and> SendHeadersVersion < MaxBlockSizeVersion
   \<and> MaxBlockSizeVersion < FeeFilterVersion
   \<and> FeeFilterVersion < NodeCFVersion
   \<and> ProtocolVersion = NodeCFVersion"
  by (simp add: InitialProcotolVersion_def NodeBloomVersion_def SendHeadersVersion_def
      MaxBlockSizeVersion_def FeeFilterVersion_def NodeCFVersion_def ProtocolVersion_def)

text \<open>
  C3: for every 64-bit flag value \<open>f\<close>, \<open>ServiceFlag.String\<close> is \<open>0x0\<close> for 0 and
  otherwise the names of the recognised flags whose bit is set, in the order
  SFNodeNetwork, SFNodeBloom, SFNodeCF, joined by \<open>|\<close>, with the residue of \<open>f\<close> outside
  the three flags appended in the same way as \<open>0x\<close> and its hexadecimal digits when
  that residue is not 0.
\<close>

theorem ServiceFlag_String_as_described:
  "ServiceFlag_String f = ServiceFlag_String_described f
   \<and> ServiceFlag_String 0 = ''0x0''"
proof (cases "f = 0")
  case True
  then show ?thesis by (simp add: ServiceFlag_String_def ServiceFlag_String_described_def)
next
  case False
  have "ServiceFlag_String f = ServiceFlag_String_described f"
    unfolding ServiceFlag_String_def ServiceFlag_String_described_def stringLoop_ordered
    using False
    by (simp add: TrimRight_def TrimLeft_def Let_def)
  then show ?thesis
    by (simp add: ServiceFlag_String_def)
qed

text \<open>
  The theorem at four values: one flag and an unknown bit, all three flags, an unknown
  bit alone, and every bit of the lowest byte.
\<close>

theorem ServiceFlag_String_as_described_witness:
  "ServiceFlag_String 9 = ''SFNodeNetwork|0x8''
   \<and> ServiceFlag_String 7 = ''SFNodeNetwork|SFNodeBloom|SFNodeCF''
   \<and> ServiceFlag_String 8 = ''0x8''
   \<and> ServiceFlag_String 255 = ''SFNodeNetwork|SFNodeBloom|SFNodeCF|0xf8''"
proof -
  have "ServiceFlag_String_described 9 = ''SFNodeNetwork|0x8''"
    and "ServiceFlag_String_described 7 = ''SFNodeNetwork|SFNodeBloom|SFNodeCF''"
    and "ServiceFlag_String_described 8 = ''0x8''"
    and "ServiceFlag_String_described 255 = ''SFNodeNetwork|SFNodeBloom|SFNodeCF|0xf8''"
    by code_simp+
  with ServiceFlag_String_as_described [of 9] ServiceFlag_String_as_described [of 7]
    ServiceFlag_String_as_described [of 8] ServiceFlag_String_as_described [of 255]
  show ?thesis by simp
qed

text \<open>
  C4 (amended): \<open>loadConfig\<close> ends the process with status 0 when the pre-parse of the
  command line reports a help request. When the pre-parse reports no flags error,
  \<open>loadConfig\<close> does not end the process: it returns. Every error it returns comes
  with no configuration and is returned by \<open>dcrdMain\<close> as its own error, before the
  shutdown listener, the database or the server is touched. \<open>fatalf\<close> always ends the
  process with status 1.
\<close>

theorem loadConfig_errors_returned_or_exit:
  "(\<forall>msg. fst (commandLineParse env (defaultConfig env)) = Some (FlagsError ErrHelp msg)
       \<longrightarrow> loadConfig env = Exit 0)
   \<and> ((\<forall>t msg. fst (commandLineParse env (defaultConfig env)) \<noteq> Some (FlagsError t msg))
       \<longrightarrow> (\<exists>r. loadConfig env = Return r))
   \<and> (\<forall>err. loadConfig env = Return (Inl err) \<longrightarrow> dcrdMain env = (Returned (Some err), []))
   \<and> fst (fatalf env str) = ProcessExit 1"
proof (intro conjI allI impI)
  fix msg
  assume "fst (commandLineParse env (defaultConfig env)) = Some (FlagsError ErrHelp msg)"
  then show "loadConfig env = Exit 0"
    by (simp add: loadConfig_Exit_iff)
next
  assume "\<forall>t msg. fst (commandLineParse env (defaultConfig env)) \<noteq> Some (FlagsError t msg)"
  then have "\<And>status. loadConfig env \<noteq> Exit status"
    by (simp add: loadConfig_Exit_iff)
  then show "\<exists>r. loadConfig env = Return r"
    by (cases "loadConfig env") auto
next
  fix err
  assume "loadConfig env = Return (Inl err)"
  then show "dcrdMain env = (Returned (Some err), [])"
    by (rule dcrdMain_error)
next
  show "fst (fatalf env str) = ProcessExit 1"
    by (simp add: fatalf_def)
qed

text \<open>
  Witness for C4: with \<open>--help\<close> the process ends with status 0 inside \<open>loadConfig\<close>;
  with a configuration file that sets a ban duration of half a second, \<open>loadConfig\<close>
  returns the error and \<open>dcrdMain\<close> returns it with nothing started.
\<close>

theorem loadConfig_errors_returned_or_exit_witness:
  "loadConfig helpEnv = Exit 0
   \<and> (\<exists>r. loadConfig shortBanEnv = Return r)
   \<and> loadConfig shortBanEnv = Return (Inl (BanDurationTooShort 500000000))
   \<and> dcrdMain shortBanEnv = (Returned (Some (BanDurationTooShort 500000000)), [])
   \<and> fst (fatalf quietEnv ''cpu profile'') = ProcessExit 1"
  using loadConfig_errors_returned_or_exit [of helpEnv "''cpu profile''"]
    loadConfig_errors_returned_or_exit [of shortBanEnv "''cpu profile''"]
    loadConfig_errors_returned_or_exit [of quietEnv "''cpu profile''"]
    preParse_helpEnv preParse_shortBanEnv loadConfig_shortBanEnv
  by simp

text \<open>
  Counterexample for C4 as stated: asked for help, \<open>loadConfig\<close> itself ends the
  process, so \<open>dcrdMain\<close> never returns to its caller, and \<open>fatalf\<close> ends the process
  too.
\<close>

theorem loadConfig_exits_process:
  "loadConfig helpEnv = Exit 0
   \<and> dcrdMain helpEnv = (ProcessExit 0, [])
   \<and> fatalf quietEnv ''cpu profile''
       = (ProcessExit 1, [LogErrorUnableToCreateProfiler ''cpu profile'', StdoutSync, LogRotatorClose])"
proof -
  have "loadConfig helpEnv = Exit 0"
    using preParse_helpEnv by (simp add: loadConfig_Exit_iff)
  then show ?thesis
    by (simp add: dcrdMain_def fatalf_def quietEnv_fields)
qed

text \<open>
  C5: \<open>CurrencyNet\<close> is a 32-bit (4-byte) value and the main network's magic is
  \<open>0xd9b400f9\<close>; for every value \<open>n\<close> the printed name is \<open>MainNet\<close> exactly when
  \<open>n\<close> is that magic, and the \<open>Unknown CurrencyNet (n)\<close> form with \<open>n\<close> in decimal
  otherwise, so no other value prints as the main network does.
\<close>

theorem CurrencyNet_String_MainNet_iff:
  "MainNet = 0xd9b400f9
   \<and> size n = 32
   \<and> (CurrencyNet_String n = ''MainNet'') = (n = MainNet)
   \<and> CurrencyNet_String n =
       (if n = MainNet then ''MainNet''
        else ''Unknown CurrencyNet ('' @ formatDec (unat n) @ '')'')
   \<and> (CurrencyNet_String n = CurrencyNet_String MainNet) = (n = MainNet)"
  by (simp add: CurrencyNet_String_def bnStrings_def MainNet_def word_size)

text \<open>
  C6: for every configuration that \<open>loadConfig\<close> has loaded (the defaults with the
  options of the configuration file) whose ban duration is shorter than one second,
  \<open>loadConfig\<close> returns an error and no configuration.
\<close>

theorem loadConfig_rejects_short_ban:
  assumes "loadConfig_parse env = Return (Inr cfg)" and "BanDuration cfg < time_Second"
  shows "(\<exists>err. loadConfig env = Return (Inl err))
    \<and> (\<forall>cfg' args. loadConfig env \<noteq> Return (Inr (cfg', args)))"
  using validate_short_ban [OF assms(2), of env] assms(1)
  by (auto simp: loadConfig_def)

text \<open>
  Witness for C6: a configuration file that sets the ban duration to 500 milliseconds.
\<close>

theorem loadConfig_rejects_short_ban_witness:
  "loadConfig_parse shortBanEnv
     = Return (Inr ((defaultConfig shortBanEnv)\<lparr>BanDuration := 500000000\<rparr>))
   \<and> BanDuration ((defaultConfig shortBanEnv)\<lparr>BanDuration := 500000000\<rparr>) < time_Second
   \<and> (\<exists>err. loadConfig shortBanEnv = Return (Inl err))"
proof -
  have b: "BanDuration ((defaultConfig shortBanEnv)\<lparr>BanDuration := 500000000\<rparr>) < time_Second"
    by (simp add: time_Second_def)
  from loadConfig_rejects_short_ban [OF parse_shortBanEnv b] parse_shortBanEnv b
  show ?thesis by simp
qed

text \<open>
  C7: \<open>shutdownRequested\<close> is true exactly when the context is canceled; and when
  \<open>dcrdMain\<close> has its configuration and finds the context canceled at its first check,
  or has loaded the block database and finds the context canceled at its second check,
  it returns nil and has neither created nor started the server.
\<close>

theorem dcrdMain_shutdown_before_server:
  "shutdownRequested ctx = canceled ctx
   \<and> (loadConfig env = Return (Inr (cfg, args))
        \<and> (canceled (ctxAtCheck env 0)
            \<or> (loadBlockDB env = None \<and> canceled (ctxAtCheck env 1)))
      \<longrightarrow> fst (dcrdMain env) = Returned None
          \<and> NewServerCalled \<notin> set (snd (dcrdMain env))
          \<and> ServerStart \<notin> set (snd (dcrdMain env)))"
  by (auto simp: shutdownRequested_iff dcrdMain_def Let_def)

text \<open>
  Witness for C7: the context canceled before the first check, and the context
  canceled between the first and the second check. With the context canceled only
  during the final wait, the server is created and started.
\<close>

theorem dcrdMain_shutdown_before_server_witness:
  "canceled (ctxAtCheck canceledEnv 0)
   \<and> fst (dcrdMain canceledEnv) = Returned None
   \<and> NewServerCalled \<notin> set (snd (dcrdMain canceledEnv))
   \<and> ServerStart \<notin> set (snd (dcrdMain canceledEnv))
   \<and> \<not> canceled (ctxAtCheck canceledWhileLoadingEnv 0)
   \<and> loadBlockDB canceledWhileLoadingEnv = None
   \<and> canceled (ctxAtCheck canceledWhileLoadingEnv 1)
   \<and> fst (dcrdMain canceledWhileLoadingEnv) = Returned None
   \<and> NewServerCalled \<notin> set (snd (dcrdMain canceledWhileLoadingEnv))
   \<and> ServerStart \<notin> set (snd (dcrdMain canceledWhileLoadingEnv))
   \<and> NewServerCalled \<in> set (snd (dcrdMain quietEnv))
   \<and> ServerStart \<in> set (snd (dcrdMain quietEnv))"
proof -
  obtain c1 a1 where l1: "loadConfig canceledEnv = Return (Inr (c1, a1))"
    using loadConfig_canceledEnv by blast
  obtain c2 a2 where l2: "loadConfig canceledWhileLoadingEnv = Return (Inr (c2, a2))"
    using loadConfig_canceledWhileLoadingEnv by blast
  have h1: "canceled (ctxAtCheck canceledEnv 0)"
    by (simp add: canceledEnv_def)
  have h2: "\<not> canceled (ctxAtCheck canceledWhileLoadingEnv 0)"
    "loadBlockDB canceledWhileLoadingEnv = None"
    "canceled (ctxAtCheck canceledWhileLoadingEnv 1)"
    by (simp_all add: canceledWhileLoadingEnv_def quietEnv_fields)
  have q: "NewServerCalled \<in> set (snd (dcrdMain quietEnv))"
    "ServerStart \<in> set (snd (dcrdMain quietEnv))"
    by (simp_all add: dcrdMain_quietEnv)
  from dcrdMain_shutdown_before_server [of _ canceledEnv c1 a1]
    dcrdMain_shutdown_before_server [of _ canceledWhileLoadingEnv c2 a2]
    l1 l2 h1 h2 q
  show ?thesis by simp
qed

text \<open>
  C8: when the options loaded leave the four limits at their defaults, the
  configuration \<open>loadConfig\<close> returns has at most 125 peers, at most 5 connections from
  the same IP, a ban duration of 24 hours (in nanoseconds) and a ban threshold of 100.
\<close>

theorem loadConfig_default_limits:
  assumes "loadConfig_parse env = Return (Inr pc)"
    and "MaxPeers pc = MaxPeers (defaultConfig env)"
    and "MaxSameIP pc = MaxSameIP (defaultConfig env)"
    and "BanDuration pc = BanDuration (defaultConfig env)"
    and "BanThreshold pc = BanThreshold (defaultConfig env)"
    and "loadConfig env = Return (Inr (cfg, args))"
  shows "MaxPeers cfg = 125 \<and> MaxSameIP cfg = 5
    \<and> BanDuration cfg = 24 * (60 * (60 * 1000000000)) \<and> BanThreshold cfg = 100"
proof -
  from assms(1,6) have "loadConfig_validate env pc = Inr (cfg, args)"
    by (simp add: loadConfig_def)
  then have "limitsOf cfg = limitsOf pc"
    by (simp add: validate_limits)
  with assms(2-5) show ?thesis
    by (simp add: limitsOf_def defaultConfig_def config_constants)
qed

text \<open>
  Witness for C8: with no option on the command line and no configuration file,
  \<open>loadConfig\<close> returns a configuration, and its limits are the defaults.
\<close>

theorem loadConfig_default_limits_witness:
  "\<exists>cfg args. loadConfig quietEnv = Return (Inr (cfg, args))
     \<and> MaxPeers cfg = 125 \<and> MaxSameIP cfg = 5
     \<and> BanDuration cfg = 24 * (60 * (60 * 1000000000)) \<and> BanThreshold cfg = 100"
proof -
  obtain cfg args where l: "loadConfig quietEnv = Return (Inr (cfg, args))"
    using loadConfig_quietEnv by blast
  from loadConfig_default_limits [OF parse_quietEnv refl refl refl refl l] l
  show ?thesis by blast
qed



text \<open>
  C10 (amended): \<open>normalizeAddress\<close> applied twice gives what it gives applied once,
  and the result parses as host and port, whenever the address already parses as host
  and port, or the address contains no square bracket and the default port contains
  no colon and no square bracket.
\<close>

theorem normalizeAddress_idempotent_when_wellformed:
  assumes "(\<exists>host port. SplitHostPort a = Inr (host, port))
     \<or> (CHR ''['' \<notin> set a \<and> CHR '']'' \<notin> set a
         \<and> CHR '':'' \<notin> set p \<and> CHR ''['' \<notin> set p \<and> CHR '']'' \<notin> set p)"
  shows "normalizeAddress (normalizeAddress a p) p = normalizeAddress a p
    \<and> (\<exists>host port. SplitHostPort (normalizeAddress a p) = Inr (host, port))"
proof (cases "SplitHostPort a")
  case (Inr hp)
  then show ?thesis by (cases hp) (simp add: normalizeAddress_def)
next
  case (Inl err)
  with assms have "SplitHostPort (JoinHostPort a p) = Inr (a, p)"
    by (auto intro: SplitHostPort_JoinHostPort)
  with Inl show ?thesis by (simp add: normalizeAddress_def)
qed

text \<open>
  Witness for C10: a host name without a port, and an address that has its port.
\<close>

theorem normalizeAddress_idempotent_when_wellformed_witness:
  "normalizeAddress ''localhost'' ''9108'' = ''localhost:9108''
   \<and> normalizeAddress (normalizeAddress ''localhost'' ''9108'') ''9108''
       = normalizeAddress ''localhost'' ''9108''
   \<and> SplitHostPort ''[::1]:9108'' = Inr (''::1'', ''9108'')
   \<and> normalizeAddress (normalizeAddress ''[::1]:9108'' ''9108'') ''9108''
       = normalizeAddress ''[::1]:9108'' ''9108''"
proof -
  have s: "SplitHostPort ''[::1]:9108'' = Inr (''::1'', ''9108'')"
    by code_simp
  have n: "normalizeAddress ''localhost'' ''9108'' = ''localhost:9108''"
    by code_simp
  from normalizeAddress_idempotent_when_wellformed [of "''localhost''" "''9108''"]
    normalizeAddress_idempotent_when_wellformed [of "''[::1]:9108''" "''9108''"] s n
  show ?thesis by simp
qed

text \<open>
  Counterexample for C10 as stated: a bracketed IPv6 address without a port. It does
  not parse, so it is joined with the port, brackets and all; the result does not parse
  either and is joined again.
\<close>

theorem normalizeAddress_not_idempotent:
  "normalizeAddress ''[::1]'' ''9108'' = ''[[::1]]:9108''
   \<and> normalizeAddress (normalizeAddress ''[::1]'' ''9108'') ''9108'' = ''[[[::1]]:9108]:9108''
   \<and> normalizeAddress (normalizeAddress ''[::1]'' ''9108'') ''9108''
       \<noteq> normalizeAddress ''[::1]'' ''9108''"
  by code_simp

end
